theory Spec2Isabelle
  imports Main "HOL-Library.Sublist"
begin

section \<open>Data model\<close>

text \<open>
  The stream lifecycle of the backend: \<^verbatim>\<open>services/streamManager.ts\<close> (class
  \<^verbatim>\<open>StreamManager\<close>), the ingest callbacks of \<^verbatim>\<open>routes/rtmp.ts\<close>, the fan-out of
  \<^verbatim>\<open>services/websocket.ts\<close> and the table definitions of \<^verbatim>\<open>database/init.ts\<close>.
  Every operation takes the state of the process and of its collaborators (database
  tables, handle map, child processes, file system, connected sockets) and returns its
  outcome together with the state it leaves behind; a thrown exception is the outcome
  \<open>Inl\<close>, and the state beside it holds whatever had been written before the throw.
  Timestamps are milliseconds since the epoch. Database statements are taken to succeed.
\<close>

datatype json =
    JNull
  | JBool bool
  | JNum int
  | JStr string
  | JArr "json list"
  | JObj "(string \<times> json) list"

text \<open>A row of table \<^verbatim>\<open>streams\<close> (interface \<^verbatim>\<open>Stream\<close>); a nullable column is an option.\<close>

record stream =
  stream_id :: string
  user_id :: string
  title :: string
  description :: "string option"
  ingest_key :: string
  status :: string
  start_time :: "int option"
  end_time :: "int option"
  duration :: "int option"
  viewer_count :: int
  max_viewers :: int
  recording_path :: "string option"
  hls_path :: "string option"
  thumbnail_path :: "string option"
  metadata :: json
  created_at :: int
  updated_at :: int

text \<open>A row of table \<^verbatim>\<open>stream_events\<close>.\<close>

record stream_event =
  ev_stream_id :: string
  event_type :: string
  event_data :: json
  ev_timestamp :: int

text \<open>A \<^verbatim>\<open>ChildProcess\<close> returned by \<^verbatim>\<open>spawn\<close>: its identity, the stream id its
  \<^verbatim>\<open>close\<close> and \<^verbatim>\<open>error\<close> handlers have captured, and its arguments.\<close>

record child =
  pid :: nat
  closure_streamId :: string
  argv :: "string list"

record WebSocketMessage =
  msg_type :: string
  msg_data :: json
  msg_timestamp :: int

text \<open>A connected \<^verbatim>\<open>WebSocket\<close>: \<open>readyState\<close> is 0 (CONNECTING), 1 (OPEN), 2 (CLOSING) or
  3 (CLOSED); \<open>send_throws\<close> says whether a call of its \<^verbatim>\<open>send\<close> raises; \<open>sent\<close> are the
  messages handed to it.\<close>

record ws =
  ws_id :: nat
  readyState :: nat
  send_throws :: bool
  sent :: "WebSocketMessage list"

datatype exn =
    Error string
  | FsError string string
  | SendError nat

text \<open>What an operation reads from its surroundings: the clocks (\<^verbatim>\<open>NOW()\<close> of the
  database, \<^verbatim>\<open>Date.now()\<close>, the \<^verbatim>\<open>new Date()\<close> of a broadcast), the environment
  variables, the functions of Node's \<^verbatim>\<open>path\<close> module, and which file-system calls fail.\<close>

record env =
  db_now :: int
  date_now :: int
  msg_now :: int
  HLS_PATH :: "string option"
  RECORDINGS_PATH :: "string option"
  S3_BUCKET :: "string option"
  MINIO_ENDPOINT :: "string option"
  path_join :: "string \<Rightarrow> string \<Rightarrow> string"
  path_dirname :: "string \<Rightarrow> string"
  mkdir_fails :: "string \<Rightarrow> bool"
  unlink_fails :: "string \<Rightarrow> bool"
  rm_fails :: "string \<Rightarrow> bool"

record state =
  streams :: "stream list"
  stream_events :: "stream_event list"
  recordingProcesses :: "(string \<times> nat) list"
  spawned :: "child list"
  signals :: "(nat \<times> string) list"
  files :: "string list"
  uploads :: "(string \<times> string) list"
  clients :: "ws list"

section \<open>JavaScript and SQL primitives\<close>

text \<open>Truthiness of a string that may be undefined or null, and \<^verbatim>\<open>a || b\<close> on it.\<close>

definition truthy :: "string option \<Rightarrow> bool" where
  "truthy v = (case v of None \<Rightarrow> False | Some x \<Rightarrow> x \<noteq> [])"

definition or_default :: "string option \<Rightarrow> string \<Rightarrow> string" where
  "or_default v d = (case v of None \<Rightarrow> d | Some x \<Rightarrow> if x = [] then d else x)"

text \<open>A JavaScript \<^verbatim>\<open>Map\<close> in insertion order: \<^verbatim>\<open>set\<close> overwrites the value of a key
  that is present and appends otherwise, \<^verbatim>\<open>delete\<close> removes the key.\<close>

fun Map_set :: "'k \<Rightarrow> 'v \<Rightarrow> ('k \<times> 'v) list \<Rightarrow> ('k \<times> 'v) list" where
  "Map_set k v [] = [(k, v)]"
| "Map_set k v (p # ps) = (if fst p = k then (k, v) # ps else p # Map_set k v ps)"

definition Map_get :: "('k \<times> 'v) list \<Rightarrow> 'k \<Rightarrow> 'v option" where
  "Map_get m k = map_of m k"

definition Map_delete :: "'k \<Rightarrow> ('k \<times> 'v) list \<Rightarrow> ('k \<times> 'v) list" where
  "Map_delete k m = filter (\<lambda>p. fst p \<noteq> k) m"

text \<open>\<^verbatim>\<open>UPDATE streams SET ... WHERE id = $n\<close>: every row with that id is changed, and the
  trigger \<^verbatim>\<open>update_streams_updated_at\<close> (BEFORE UPDATE, FOR EACH ROW) sets its
  \<^verbatim>\<open>updated_at\<close> to \<^verbatim>\<open>NOW()\<close>.\<close>

definition update_streams :: "env \<Rightarrow> string \<Rightarrow> (stream \<Rightarrow> stream) \<Rightarrow> state \<Rightarrow> state" where
  "update_streams e sid f s =
     s\<lparr>streams := map (\<lambda>r. if stream_id r = sid then (f r)\<lparr>updated_at := db_now e\<rparr> else r)
                      (streams s)\<rparr>"

text \<open>\<^verbatim>\<open>INSERT INTO stream_events (stream_id, event_type, event_data)\<close>; the column
  \<^verbatim>\<open>timestamp\<close> defaults to \<^verbatim>\<open>NOW()\<close>.\<close>

definition insert_event :: "env \<Rightarrow> string \<Rightarrow> string \<Rightarrow> json \<Rightarrow> state \<Rightarrow> state" where
  "insert_event e sid ty d s =
     s\<lparr>stream_events := stream_events s @
        [\<lparr>ev_stream_id = sid, event_type = ty, event_data = d, ev_timestamp = db_now e\<rparr>]\<rparr>"

text \<open>\<^verbatim>\<open>DELETE FROM streams WHERE id = $1\<close>; \<^verbatim>\<open>stream_events.stream_id\<close> references the
  row with ON DELETE CASCADE.\<close>

definition delete_streams :: "string \<Rightarrow> state \<Rightarrow> state" where
  "delete_streams sid s =
     s\<lparr>streams := filter (\<lambda>r. stream_id r \<noteq> sid) (streams s),
       stream_events := filter (\<lambda>ev. ev_stream_id ev \<noteq> sid) (stream_events s)\<rparr>"

text \<open>\<^verbatim>\<open>SELECT ... FROM streams WHERE ingest_key = $1\<close>, then \<^verbatim>\<open>rows[0]\<close>.\<close>

definition select_by_ingest_key :: "string \<Rightarrow> state \<Rightarrow> stream option" where
  "select_by_ingest_key k s = find (\<lambda>r. ingest_key r = k) (streams s)"

text \<open>The calls of Node's \<^verbatim>\<open>fs\<close>. \<^verbatim>\<open>rmSync\<close> with \<^verbatim>\<open>recursive\<close> removes the directory
  and everything below it.\<close>

definition existsSync :: "string \<Rightarrow> state \<Rightarrow> bool" where
  "existsSync p s = (p \<in> set (files s))"

definition mkdirSync :: "string \<Rightarrow> state \<Rightarrow> state" where
  "mkdirSync p s = s\<lparr>files := files s @ [p]\<rparr>"

definition unlinkSync :: "string \<Rightarrow> state \<Rightarrow> state" where
  "unlinkSync p s = s\<lparr>files := removeAll p (files s)\<rparr>"

definition rmSync :: "string \<Rightarrow> state \<Rightarrow> state" where
  "rmSync d s = s\<lparr>files := filter (\<lambda>q. \<not> (q = d \<or> prefix (d @ ''/'') q)) (files s)\<rparr>"

section \<open>WebSocketManager\<close>

text \<open>\<^verbatim>\<open>this.clients.forEach(client => { if (client.readyState === WebSocket.OPEN)
  client.send(messageStr) })\<close>: the clients in insertion order; an exception thrown by
  \<^verbatim>\<open>send\<close> leaves the loop.\<close>

fun forEach_send :: "WebSocketMessage \<Rightarrow> ws list \<Rightarrow> (exn + unit) \<times> ws list" where
  "forEach_send m [] = (Inr (), [])"
| "forEach_send m (c # cs) =
     (if readyState c = 1 then
        (if send_throws c then (Inl (SendError (ws_id c)), c # cs)
         else (case forEach_send m cs of (r, cs') \<Rightarrow> (r, c\<lparr>sent := sent c @ [m]\<rparr> # cs')))
      else (case forEach_send m cs of (r, cs') \<Rightarrow> (r, c # cs')))"

definition broadcast :: "env \<Rightarrow> string \<Rightarrow> json \<Rightarrow> state \<Rightarrow> (exn + unit) \<times> state" where
  "broadcast e ty d s =
     (let message = \<lparr>msg_type = ty, msg_data = d, msg_timestamp = msg_now e\<rparr>
      in case forEach_send message (clients s) of (r, cs') \<Rightarrow> (r, s\<lparr>clients := cs'\<rparr>))"



section \<open>StreamManager\<close>

definition getStream :: "string \<Rightarrow> state \<Rightarrow> stream option" where
  "getStream sid s = find (\<lambda>r. stream_id r = sid) (streams s)"

definition logStreamEvent :: "env \<Rightarrow> string \<Rightarrow> string \<Rightarrow> json \<Rightarrow> state \<Rightarrow> state" where
  "logStreamEvent e sid ty d s = insert_event e sid ty d s"

definition ffmpegArgs :: "string \<Rightarrow> string \<Rightarrow> string \<Rightarrow> string list" where
  "ffmpegArgs key manifest recordingPath =
     [''-i'', ''rtmp://localhost:1935/live/'' @ key,
      ''-c:v'', ''libx264'',
      ''-c:a'', ''aac'',
      ''-preset'', ''veryfast'',
      ''-g'', ''50'',
      ''-sc_threshold'', ''0'',
      ''-f'', ''hls'',
      ''-hls_time'', ''6'',
      ''-hls_list_size'', ''10'',
      ''-hls_flags'', ''delete_segments+append_list'',
      manifest,
      ''-c:v'', ''copy'',
      ''-c:a'', ''copy'',
      ''-f'', ''mp4'',
      recordingPath]"

text \<open>\<^verbatim>\<open>startRecording\<close>: the directory is made unless it exists (\<^verbatim>\<open>mkdirSync\<close> may
  throw), \<^verbatim>\<open>spawn\<close> returns a new child whose handlers capture \<^verbatim>\<open>streamId\<close>, the child
  is put into \<^verbatim>\<open>recordingProcesses\<close>, and the two paths are written to the row.\<close>

definition startRecording :: "env \<Rightarrow> stream \<Rightarrow> state \<Rightarrow> (exn + unit) \<times> state" where
  "startRecording e strm s =
     (let streamId = stream_id strm;
          hlsDir = path_join e (or_default (HLS_PATH e) ''./storage/hls'') streamId;
          recordingPath = path_join e (or_default (RECORDINGS_PATH e) ''./storage/recordings'')
                            (streamId @ ''.mp4'');
          manifest = path_join e hlsDir ''index.m3u8''
      in if \<not> existsSync hlsDir s \<and> mkdir_fails e hlsDir then (Inl (FsError ''mkdir'' hlsDir), s)
         else
           let s1 = (if \<not> existsSync hlsDir s then mkdirSync hlsDir s else s);
               ffmpeg = length (spawned s1);
               s2 = s1\<lparr>spawned := spawned s1 @
                      [\<lparr>pid = ffmpeg, closure_streamId = streamId,
                        argv = ffmpegArgs (ingest_key strm) manifest recordingPath\<rparr>]\<rparr>;
               s3 = s2\<lparr>recordingProcesses := Map_set streamId ffmpeg (recordingProcesses s2)\<rparr>;
               s4 = update_streams e streamId
                      (\<lambda>r. r\<lparr>recording_path := Some recordingPath, hls_path := Some manifest\<rparr>) s3
           in (Inr (), s4))"

text \<open>The directory and the file \<^verbatim>\<open>startRecording\<close> computes for a stream id.\<close>

definition hlsDir_of :: "env \<Rightarrow> string \<Rightarrow> string" where
  "hlsDir_of e sid = path_join e (or_default (HLS_PATH e) ''./storage/hls'') sid"

definition recordingPath_of :: "env \<Rightarrow> string \<Rightarrow> string" where
  "recordingPath_of e sid =
     path_join e (or_default (RECORDINGS_PATH e) ''./storage/recordings'') (sid @ ''.mp4'')"

text \<open>The handlers \<^verbatim>\<open>ffmpeg.on('close')\<close> and \<^verbatim>\<open>ffmpeg.on('error')\<close> of a child whose
  closure holds \<^verbatim>\<open>streamId\<close>: \<^verbatim>\<open>this.recordingProcesses.delete(streamId)\<close>.\<close>

definition ffmpeg_on_close :: "string \<Rightarrow> state \<Rightarrow> state" where
  "ffmpeg_on_close streamId s = s\<lparr>recordingProcesses := Map_delete streamId (recordingProcesses s)\<rparr>"

definition ffmpeg_on_error :: "string \<Rightarrow> state \<Rightarrow> state" where
  "ffmpeg_on_error streamId s = s\<lparr>recordingProcesses := Map_delete streamId (recordingProcesses s)\<rparr>"

definition stopRecording :: "string \<Rightarrow> state \<Rightarrow> state" where
  "stopRecording streamId s =
     (case Map_get (recordingProcesses s) streamId of
        Some process \<Rightarrow>
          s\<lparr>signals := signals s @ [(process, ''SIGTERM'')],
            recordingProcesses := Map_delete streamId (recordingProcesses s)\<rparr>
      | None \<Rightarrow> s)"

definition startStream :: "env \<Rightarrow> string \<Rightarrow> state \<Rightarrow> (exn + unit) \<times> state" where
  "startStream e streamId s =
     (case getStream streamId s of
        None \<Rightarrow> (Inl (Error ''Stream not found''), s)
      | Some strm \<Rightarrow>
          if status strm = ''live'' then (Inl (Error ''Stream is already live''), s)
          else
            let s1 = update_streams e streamId
                       (\<lambda>r. r\<lparr>status := ''live'', start_time := Some (db_now e)\<rparr>) s
            in (case startRecording e strm s1 of
                  (Inl x, s2) \<Rightarrow> (Inl x, s2)
                | (Inr u, s2) \<Rightarrow>
                    (let s3 = logStreamEvent e streamId ''stream_started''
                               (JObj [(''title'', JStr (title strm)),
                                      (''ingest_key'', JStr (ingest_key strm))]) s2
                     in broadcast e ''stream_started''
                          (JObj [(''streamId'', JStr streamId),
                                 (''title'', JStr (title strm)),
                                 (''status'', JStr ''live'')]) s3)))"

text \<open>\<^verbatim>\<open>stream.start_time ? Math.floor((Date.now() - new Date(stream.start_time).getTime())
  / 1000) : 0\<close>; \<open>div\<close> on \<open>int\<close> rounds down, as \<^verbatim>\<open>Math.floor\<close> does.\<close>

definition calc_duration :: "env \<Rightarrow> stream \<Rightarrow> int" where
  "calc_duration e strm =
     (case start_time strm of Some t \<Rightarrow> (date_now e - t) div 1000 | None \<Rightarrow> 0)"

text \<open>The offload of \<^verbatim>\<open>stopStream\<close>: with a recording path on the row read at entry and
  a configured bucket or endpoint, \<^verbatim>\<open>uploadRecording\<close> is called; whatever it throws is
  caught and logged.\<close>

definition offload :: "env \<Rightarrow> stream \<Rightarrow> string \<Rightarrow> state \<Rightarrow> state" where
  "offload e strm streamId s =
     (case recording_path strm of
        Some p \<Rightarrow>
          if p \<noteq> [] \<and> (truthy (S3_BUCKET e) \<or> truthy (MINIO_ENDPOINT e))
          then s\<lparr>uploads := uploads s @ [(p, streamId)]\<rparr> else s
      | None \<Rightarrow> s)"

definition stopStream :: "env \<Rightarrow> string \<Rightarrow> state \<Rightarrow> (exn + unit) \<times> state" where
  "stopStream e streamId s =
     (case getStream streamId s of
        None \<Rightarrow> (Inl (Error ''Stream not found''), s)
      | Some strm \<Rightarrow>
          let s1 = stopRecording streamId s;
              dur = calc_duration e strm;
              s2 = update_streams e streamId
                     (\<lambda>r. r\<lparr>status := ''ended'', end_time := Some (db_now e),
                            duration := Some dur\<rparr>) s1;
              s3 = offload e strm streamId s2;
              s4 = logStreamEvent e streamId ''stream_ended''
                     (JObj [(''duration'', JNum dur), (''max_viewers'', JNum (max_viewers strm))]) s3
          in broadcast e ''stream_ended''
               (JObj [(''streamId'', JStr streamId),
                      (''duration'', JNum dur),
                      (''status'', JStr ''ended'')]) s4)"

definition updateStreamMetadata :: "env \<Rightarrow> string \<Rightarrow> json \<Rightarrow> state \<Rightarrow> (exn + unit) \<times> state" where
  "updateStreamMetadata e streamId md s =
     (Inr (), update_streams e streamId (\<lambda>r. r\<lparr>metadata := md\<rparr>) s)"

text \<open>The two file removals of \<^verbatim>\<open>deleteStream\<close>; neither stands in a
  \<^verbatim>\<open>try\<close>, so an exception of \<^verbatim>\<open>unlinkSync\<close> or \<^verbatim>\<open>rmSync\<close> leaves the method.\<close>

definition delete_recording :: "env \<Rightarrow> stream \<Rightarrow> state \<Rightarrow> (exn + unit) \<times> state" where
  "delete_recording e strm s =
     (case recording_path strm of
        Some p \<Rightarrow>
          if p \<noteq> [] \<and> existsSync p s
          then (if unlink_fails e p then (Inl (FsError ''unlink'' p), s)
                else (Inr (), unlinkSync p s))
          else (Inr (), s)
      | None \<Rightarrow> (Inr (), s))"

definition delete_hls :: "env \<Rightarrow> stream \<Rightarrow> state \<Rightarrow> (exn + unit) \<times> state" where
  "delete_hls e strm s =
     (case hls_path strm of
        Some p \<Rightarrow>
          if p \<noteq> [] then
            (let hlsDir = path_dirname e p
             in if existsSync hlsDir s
                then (if rm_fails e hlsDir then (Inl (FsError ''rm'' hlsDir), s)
                      else (Inr (), rmSync hlsDir s))
                else (Inr (), s))
          else (Inr (), s)
      | None \<Rightarrow> (Inr (), s))"

definition deleteStream :: "env \<Rightarrow> string \<Rightarrow> state \<Rightarrow> (exn + unit) \<times> state" where
  "deleteStream e streamId s =
     (case getStream streamId s of
        None \<Rightarrow> (Inl (Error ''Stream not found''), s)
      | Some strm \<Rightarrow>
          let s1 = stopRecording streamId s
          in (case delete_recording e strm s1 of
                (Inl x, s2) \<Rightarrow> (Inl x, s2)
              | (Inr u, s2) \<Rightarrow>
                  (case delete_hls e strm s2 of
                     (Inl x, s3) \<Rightarrow> (Inl x, s3)
                   | (Inr v, s3) \<Rightarrow> (Inr (), delete_streams streamId s3))))"

section \<open>The ingest callbacks of routes/rtmp.ts\<close>

text \<open>The result is the HTTP status and body sent.\<close>

definition publish :: "env \<Rightarrow> string \<Rightarrow> state \<Rightarrow> (nat \<times> string) \<times> state" where
  "publish e ingestKey s =
     (case select_by_ingest_key ingestKey s of
        None \<Rightarrow> ((403, ''Invalid ingest key''), s)
      | Some row \<Rightarrow>
          let streamId = stream_id row;
              s1 = update_streams e streamId
                     (\<lambda>r. r\<lparr>status := ''live'', start_time := Some (db_now e)\<rparr>) s;
              s2 = insert_event e streamId ''rtmp_publish_started''
                     (JObj [(''ingestKey'', JStr ingestKey)]) s1
          in ((200, ''OK''), s2))"

definition unpublish :: "env \<Rightarrow> string \<Rightarrow> state \<Rightarrow> (nat \<times> string) \<times> state" where
  "unpublish e ingestKey s =
     (case select_by_ingest_key ingestKey s of
        Some strm \<Rightarrow>
          let dur = calc_duration e strm;
              s1 = update_streams e (stream_id strm)
                     (\<lambda>r. r\<lparr>status := ''ended'', end_time := Some (db_now e),
                            duration := Some dur\<rparr>) s;
              s2 = insert_event e (stream_id strm) ''rtmp_publish_stopped''
                     (JObj [(''ingestKey'', JStr ingestKey), (''duration'', JNum dur)]) s1
          in ((200, ''OK''), s2)
      | None \<Rightarrow> ((200, ''OK''), s))"

section \<open>Triggers\<close>

text \<open>The five triggers of a stream's lifecycle and the code each one runs: the control
  API calls \<^verbatim>\<open>startStream\<close> and \<^verbatim>\<open>stopStream\<close> with a stream id, the ingest transport
  posts \<^verbatim>\<open>/publish\<close> and \<^verbatim>\<open>/unpublish\<close> with an ingest key, and the exit of a recording
  process runs its \<^verbatim>\<open>close\<close> handler. \<open>accepted\<close> says whether the caller saw success.\<close>

datatype trigger =
    Start string
  | Stop string
  | IngestBegun string
  | IngestEnded string
  | ProcessExited string

definition succeeded :: "exn + unit \<Rightarrow> bool" where
  "succeeded r = (case r of Inr u \<Rightarrow> True | Inl x \<Rightarrow> False)"

fun fire :: "env \<Rightarrow> trigger \<Rightarrow> state \<Rightarrow> bool \<times> state" where
  "fire e (Start sid) s = (case startStream e sid s of (r, s') \<Rightarrow> (succeeded r, s'))"
| "fire e (Stop sid) s = (case stopStream e sid s of (r, s') \<Rightarrow> (succeeded r, s'))"
| "fire e (IngestBegun k) s = (case publish e k s of (r, s') \<Rightarrow> (fst r = 200, s'))"
| "fire e (IngestEnded k) s = (case unpublish e k s of (r, s') \<Rightarrow> (fst r = 200, s'))"
| "fire e (ProcessExited sid) s = (True, ffmpeg_on_close sid s)"

text \<open>A sequence of triggers, each with the surroundings it runs in, one after the other.\<close>

fun run :: "(env \<times> trigger) list \<Rightarrow> state \<Rightarrow> state" where
  "run [] s = s"
| "run ((e, t) # ts) s = run ts (snd (fire e t s))"

definition status_of :: "string \<Rightarrow> state \<Rightarrow> string option" where
  "status_of sid s = map_option status (getStream sid s)"

section \<open>Concrete surroundings and states\<close>

text \<open>Surroundings in which no file-system call fails and no offload is configured, with
  both clocks at 5000 and the storage roots \<^verbatim>\<open>storage/hls\<close> and \<^verbatim>\<open>storage/recordings\<close>;
  \<^verbatim>\<open>path.join\<close> and \<^verbatim>\<open>path.dirname\<close> as they are on paths that need no normalising.\<close>

definition env0 :: env where
  "env0 = \<lparr>db_now = 5000, date_now = 5000, msg_now = 5000,
            HLS_PATH = Some ''storage/hls'', RECORDINGS_PATH = Some ''storage/recordings'',
            S3_BUCKET = None, MINIO_ENDPOINT = None,
            path_join = (\<lambda>a b. a @ ''/'' @ b),
            path_dirname = (\<lambda>p. rev (tl (dropWhile (\<lambda>c. c \<noteq> CHR ''/'') (rev p)))),
            mkdir_fails = (\<lambda>p. False), unlink_fails = (\<lambda>p. False),
            rm_fails = (\<lambda>p. False)\<rparr>"

text \<open>A stream as \<^verbatim>\<open>createStream\<close> inserts it, and the same stream live since 1000, ended
  at 3000, and live with a recording on disk.\<close>

definition row_created :: stream where
  "row_created = \<lparr>stream_id = ''s1'', user_id = ''u1'', title = ''T'', description = None,
     ingest_key = ''k1'', status = ''created'', start_time = None, end_time = None,
     duration = None, viewer_count = 0, max_viewers = 0, recording_path = None,
     hls_path = None, thumbnail_path = None, metadata = JObj [], created_at = 0,
     updated_at = 0\<rparr>"

definition row_live :: stream where
  "row_live = row_created\<lparr>status := ''live'', start_time := Some 1000, updated_at := 1000\<rparr>"

definition row_ended :: stream where
  "row_ended = row_live\<lparr>status := ''ended'', end_time := Some 3000, duration := Some 2,
     updated_at := 3000\<rparr>"

definition row_recorded :: stream where
  "row_recorded = row_live\<lparr>recording_path := Some ''storage/recordings/s1.mp4'',
     hls_path := Some ''storage/hls/s1/index.m3u8''\<rparr>"

definition st_empty :: state where
  "st_empty = \<lparr>streams = [], stream_events = [], recordingProcesses = [], spawned = [],
     signals = [], files = [], uploads = [], clients = []\<rparr>"

definition st_created :: state where
  "st_created = st_empty\<lparr>streams := [row_created]\<rparr>"

definition st_live :: state where
  "st_live = st_empty\<lparr>streams := [row_live]\<rparr>"

definition st_ended :: state where
  "st_ended = st_empty\<lparr>streams := [row_ended]\<rparr>"

definition st_recording :: state where
  "st_recording = st_empty\<lparr>streams := [row_recorded],
     recordingProcesses := [(''s1'', 0)],
     spawned := [\<lparr>pid = 0, closure_streamId = ''s1'', argv = []\<rparr>],
     files := [''storage/recordings/s1.mp4'', ''storage/hls/s1'', ''storage/hls/s1/index.m3u8'']\<rparr>"

text \<open>Two open sockets, the first of which throws on \<^verbatim>\<open>send\<close>, and a closed one.\<close>

definition ws_bad :: ws where
  "ws_bad = \<lparr>ws_id = 0, readyState = 1, send_throws = True, sent = []\<rparr>"

definition ws_good :: ws where
  "ws_good = \<lparr>ws_id = 1, readyState = 1, send_throws = False, sent = []\<rparr>"

definition ws_closed :: ws where
  "ws_closed = \<lparr>ws_id = 2, readyState = 3, send_throws = False, sent = []\<rparr>"


lemmas ex_defs = env0_def row_created_def row_live_def row_ended_def row_recorded_def
  st_empty_def st_created_def st_live_def st_ended_def st_recording_def
  ws_bad_def ws_good_def ws_closed_def

lemmas op_defs = startStream_def stopStream_def startRecording_def stopRecording_def
  publish_def unpublish_def deleteStream_def delete_recording_def delete_hls_def
  updateStreamMetadata_def broadcast_def getStream_def select_by_ingest_key_def
  update_streams_def insert_event_def delete_streams_def logStreamEvent_def offload_def
  calc_duration_def existsSync_def mkdirSync_def unlinkSync_def rmSync_def
  Map_get_def Map_delete_def truthy_def or_default_def status_of_def succeeded_def
  ffmpeg_on_close_def ffmpeg_on_error_def Let_def


section \<open>Lemmas on the primitives\<close>

lemma find_map_keep_id:
  assumes "\<And>r. stream_id (g r) = stream_id r"
  shows "find (\<lambda>r. stream_id r = sid) (map g rs) = map_option g (find (\<lambda>r. stream_id r = sid) rs)"
  by (induction rs) (simp_all add: assms)

lemma find_map_keep_key:
  assumes "\<And>r. ingest_key (g r) = ingest_key r"
  shows "find (\<lambda>r. ingest_key r = k) (map g rs) = map_option g (find (\<lambda>r. ingest_key r = k) rs)"
  by (induction rs) (simp_all add: assms)

lemma getStream_update_streams:
  assumes "\<And>r. stream_id (f r) = stream_id r"
  shows "getStream sid (update_streams e sid' f s) =
         map_option (\<lambda>r. if stream_id r = sid' then (f r)\<lparr>updated_at := db_now e\<rparr> else r)
           (getStream sid s)"
  unfolding getStream_def update_streams_def
  by (simp add: find_map_keep_id assms)

lemma select_update_streams:
  assumes "\<And>r. ingest_key (f r) = ingest_key r"
  shows "select_by_ingest_key k (update_streams e sid' f s) =
         map_option (\<lambda>r. if stream_id r = sid' then (f r)\<lparr>updated_at := db_now e\<rparr> else r)
           (select_by_ingest_key k s)"
  unfolding select_by_ingest_key_def update_streams_def
  by (simp add: find_map_keep_key assms)

lemma getStream_id: "getStream sid s = Some r \<Longrightarrow> stream_id r = sid"
  by (auto simp: getStream_def find_Some_iff)

lemma select_key: "select_by_ingest_key k s = Some r \<Longrightarrow> ingest_key r = k"
  by (auto simp: select_by_ingest_key_def find_Some_iff)

lemma select_key_getStream:
  "select_by_ingest_key k s = Some r \<Longrightarrow> \<exists>r'. getStream (stream_id r) s = Some r'"
  unfolding select_by_ingest_key_def getStream_def
  by (cases "find (\<lambda>x. stream_id x = stream_id r) (streams s)")
     (auto simp: find_None_iff find_Some_iff)

lemma getStream_streams: "streams s = streams s' \<Longrightarrow> getStream sid s = getStream sid s'"
  by (simp add: getStream_def)

lemma select_streams:
  "streams s = streams s' \<Longrightarrow> select_by_ingest_key k s = select_by_ingest_key k s'"
  by (simp add: select_by_ingest_key_def)

lemma update_streams_frame [simp]:
  "stream_events (update_streams e sid f s) = stream_events s"
  "recordingProcesses (update_streams e sid f s) = recordingProcesses s"
  "spawned (update_streams e sid f s) = spawned s"
  "signals (update_streams e sid f s) = signals s"
  "files (update_streams e sid f s) = files s"
  "uploads (update_streams e sid f s) = uploads s"
  "clients (update_streams e sid f s) = clients s"
  by (simp_all add: update_streams_def)

lemma insert_event_frame [simp]:
  "streams (insert_event e sid ty d s) = streams s"
  "recordingProcesses (insert_event e sid ty d s) = recordingProcesses s"
  "spawned (insert_event e sid ty d s) = spawned s"
  "signals (insert_event e sid ty d s) = signals s"
  "files (insert_event e sid ty d s) = files s"
  "uploads (insert_event e sid ty d s) = uploads s"
  "clients (insert_event e sid ty d s) = clients s"
  by (simp_all add: insert_event_def)

lemma broadcast_frame [simp]:
  "streams (snd (broadcast e ty d s)) = streams s"
  "stream_events (snd (broadcast e ty d s)) = stream_events s"
  "recordingProcesses (snd (broadcast e ty d s)) = recordingProcesses s"
  "spawned (snd (broadcast e ty d s)) = spawned s"
  "signals (snd (broadcast e ty d s)) = signals s"
  "files (snd (broadcast e ty d s)) = files s"
  "uploads (snd (broadcast e ty d s)) = uploads s"
  by (simp_all add: broadcast_def split: prod.splits)

lemma stopRecording_frame [simp]:
  "streams (stopRecording sid s) = streams s"
  "stream_events (stopRecording sid s) = stream_events s"
  "spawned (stopRecording sid s) = spawned s"
  "files (stopRecording sid s) = files s"
  "uploads (stopRecording sid s) = uploads s"
  "clients (stopRecording sid s) = clients s"
  by (simp_all add: stopRecording_def split: option.splits)

lemma offload_frame [simp]:
  "streams (offload e r sid s) = streams s"
  "stream_events (offload e r sid s) = stream_events s"
  "recordingProcesses (offload e r sid s) = recordingProcesses s"
  "spawned (offload e r sid s) = spawned s"
  "signals (offload e r sid s) = signals s"
  "files (offload e r sid s) = files s"
  "clients (offload e r sid s) = clients s"
  by (simp_all add: offload_def split: option.splits)

lemma getStream_frame [simp]:
  "getStream x (insert_event e sid ty d s) = getStream x s"
  "getStream x (snd (broadcast e ty d s)) = getStream x s"
  "getStream x (stopRecording sid s) = getStream x s"
  "getStream x (offload e r sid s) = getStream x s"
  by (simp_all add: getStream_def)

lemma select_frame [simp]:
  "select_by_ingest_key k (insert_event e sid ty d s) = select_by_ingest_key k s"
  "select_by_ingest_key k (snd (broadcast e ty d s)) = select_by_ingest_key k s"
  "select_by_ingest_key k (stopRecording sid s) = select_by_ingest_key k s"
  "select_by_ingest_key k (offload e r sid s) = select_by_ingest_key k s"
  by (simp_all add: select_by_ingest_key_def)

section \<open>What each operation leaves in the row\<close>

lemma stopStream_row:
  assumes "getStream sid s = Some r"
  shows "getStream sid (snd (stopStream e sid s)) =
         Some (r\<lparr>status := ''ended'', end_time := Some (db_now e),
                 duration := Some (calc_duration e r), updated_at := db_now e\<rparr>)"
  using assms getStream_id[OF assms]
  by (simp add: stopStream_def Let_def logStreamEvent_def getStream_update_streams)

lemma stopStream_other:
  assumes "x \<noteq> sid"
  shows "getStream x (snd (stopStream e sid s)) = getStream x s"
proof (cases "getStream sid s")
  case None
  then show ?thesis by (simp add: stopStream_def)
next
  case (Some r)
  show ?thesis
  proof (cases "getStream x s")
    case None
    then show ?thesis using Some
      by (simp add: stopStream_def Let_def logStreamEvent_def getStream_update_streams)
  next
    case (Some r')
    then show ?thesis using \<open>getStream sid s = Some r\<close> assms getStream_id[OF Some]
      by (simp add: stopStream_def Let_def logStreamEvent_def getStream_update_streams)
  qed
qed

lemma getStream_fields [simp]:
  "getStream x (s\<lparr>stream_events := a\<rparr>) = getStream x s"
  "getStream x (s\<lparr>recordingProcesses := b\<rparr>) = getStream x s"
  "getStream x (s\<lparr>spawned := c\<rparr>) = getStream x s"
  "getStream x (s\<lparr>signals := d\<rparr>) = getStream x s"
  "getStream x (s\<lparr>files := f\<rparr>) = getStream x s"
  "getStream x (s\<lparr>uploads := g\<rparr>) = getStream x s"
  "getStream x (s\<lparr>clients := h\<rparr>) = getStream x s"
  by (simp_all add: getStream_def)

lemma select_fields [simp]:
  "select_by_ingest_key k (s\<lparr>stream_events := a\<rparr>) = select_by_ingest_key k s"
  "select_by_ingest_key k (s\<lparr>recordingProcesses := b\<rparr>) = select_by_ingest_key k s"
  "select_by_ingest_key k (s\<lparr>spawned := c\<rparr>) = select_by_ingest_key k s"
  "select_by_ingest_key k (s\<lparr>signals := d\<rparr>) = select_by_ingest_key k s"
  "select_by_ingest_key k (s\<lparr>files := f\<rparr>) = select_by_ingest_key k s"
  "select_by_ingest_key k (s\<lparr>uploads := g\<rparr>) = select_by_ingest_key k s"
  "select_by_ingest_key k (s\<lparr>clients := h\<rparr>) = select_by_ingest_key k s"
  by (simp_all add: select_by_ingest_key_def)

lemma existsSync_update_streams [simp]:
  "existsSync p (update_streams e sid f s) = existsSync p s"
  by (simp add: existsSync_def)

lemma startRecording_fails:
  assumes "\<not> existsSync (hlsDir_of e (stream_id r)) s" and "mkdir_fails e (hlsDir_of e (stream_id r))"
  shows "startRecording e r s = (Inl (FsError ''mkdir'' (hlsDir_of e (stream_id r))), s)"
  using assms by (simp add: startRecording_def hlsDir_of_def Let_def)

lemma startRecording_ok:
  assumes "existsSync (hlsDir_of e (stream_id r)) s \<or> \<not> mkdir_fails e (hlsDir_of e (stream_id r))"
  shows "fst (startRecording e r s) = Inr ()"
    and "getStream x (snd (startRecording e r s)) =
         map_option (\<lambda>z. if stream_id z = stream_id r
            then z\<lparr>recording_path := Some (recordingPath_of e (stream_id r)),
                   hls_path := Some (path_join e (hlsDir_of e (stream_id r)) ''index.m3u8''),
                   updated_at := db_now e\<rparr> else z) (getStream x s)"
    and "length (spawned (snd (startRecording e r s))) = Suc (length (spawned s))"
    and "stream_events (snd (startRecording e r s)) = stream_events s"
    and "recordingProcesses (snd (startRecording e r s)) =
         Map_set (stream_id r) (length (spawned s)) (recordingProcesses s)"
  using assms unfolding hlsDir_of_def recordingPath_of_def
  by (auto simp add: startRecording_def Let_def mkdirSync_def getStream_update_streams)

lemma startStream_fails_row:
  assumes "getStream sid s = Some r" and "status r \<noteq> ''live''"
    and "\<not> existsSync (hlsDir_of e sid) s" and "mkdir_fails e (hlsDir_of e sid)"
  shows "startStream e sid s =
         (Inl (FsError ''mkdir'' (hlsDir_of e sid)),
          update_streams e sid (\<lambda>r. r\<lparr>status := ''live'', start_time := Some (db_now e)\<rparr>) s)"
  using assms getStream_id[OF assms(1)]
  by (simp add: startStream_def Let_def startRecording_fails)

lemma startStream_ok_row:
  assumes "getStream sid s = Some r" and "status r \<noteq> ''live''"
    and "existsSync (hlsDir_of e sid) s \<or> \<not> mkdir_fails e (hlsDir_of e sid)"
  shows "getStream sid (snd (startStream e sid s)) =
         Some (r\<lparr>status := ''live'', start_time := Some (db_now e),
                 recording_path := Some (recordingPath_of e sid),
                 hls_path := Some (path_join e (hlsDir_of e sid) ''index.m3u8''),
                 updated_at := db_now e\<rparr>)"
    and "length (spawned (snd (startStream e sid s))) = Suc (length (spawned s))"
    and "recordingProcesses (snd (startStream e sid s)) =
         Map_set sid (length (spawned s)) (recordingProcesses s)"
proof -
  let ?s1 = "update_streams e sid (\<lambda>r. r\<lparr>status := ''live'', start_time := Some (db_now e)\<rparr>) s"
  have id: "stream_id r = sid" by (rule getStream_id[OF assms(1)])
  have ok: "existsSync (hlsDir_of e (stream_id r)) ?s1 \<or> \<not> mkdir_fails e (hlsDir_of e (stream_id r))"
    using assms(3) id by simp
  note R = startRecording_ok[OF ok]
  obtain u s2 where sr: "startRecording e r ?s1 = (Inr u, s2)"
    using R(1) by (cases "startRecording e r ?s1") (auto)
  have s2: "s2 = snd (startRecording e r ?s1)" using sr by simp
  have res: "snd (startStream e sid s) =
     snd (broadcast e ''stream_started''
        (JObj [(''streamId'', JStr sid), (''title'', JStr (title r)), (''status'', JStr ''live'')])
        (logStreamEvent e sid ''stream_started''
           (JObj [(''title'', JStr (title r)), (''ingest_key'', JStr (ingest_key r))]) s2))"
    using assms(1,2) sr by (simp add: startStream_def Let_def)
  show "getStream sid (snd (startStream e sid s)) =
         Some (r\<lparr>status := ''live'', start_time := Some (db_now e),
                 recording_path := Some (recordingPath_of e sid),
                 hls_path := Some (path_join e (hlsDir_of e sid) ''index.m3u8''),
                 updated_at := db_now e\<rparr>)"
    using assms(1) id by (simp add: res logStreamEvent_def s2 R(2) getStream_update_streams)
  show "length (spawned (snd (startStream e sid s))) = Suc (length (spawned s))"
    by (simp add: res logStreamEvent_def s2 R(3))
  show "recordingProcesses (snd (startStream e sid s)) =
         Map_set sid (length (spawned s)) (recordingProcesses s)"
    using id by (simp add: res logStreamEvent_def s2 R(5))
qed


section \<open>Starting a stream that is live\<close>

lemma startStream_live:
  assumes "getStream sid s = Some r" and "status r = ''live''"
  shows "startStream e sid s = (Inl (Error ''Stream is already live''), s)"
  using assms by (simp add: startStream_def)

lemma publish_known:
  assumes "select_by_ingest_key k s = Some r"
  shows "fst (publish e k s) = (200, ''OK'')"
    and "status_of (stream_id r) (snd (publish e k s)) = Some ''live''"
    and "spawned (snd (publish e k s)) = spawned s"
    and "recordingProcesses (snd (publish e k s)) = recordingProcesses s"
    and "signals (snd (publish e k s)) = signals s"
proof -
  obtain r' where r': "getStream (stream_id r) s = Some r'"
    using select_key_getStream[OF assms] by blast
  show "fst (publish e k s) = (200, ''OK'')" using assms by (simp add: publish_def Let_def)
  show "status_of (stream_id r) (snd (publish e k s)) = Some ''live''"
    using assms r' getStream_id[OF r']
    by (simp add: publish_def Let_def status_of_def getStream_update_streams)
  show "spawned (snd (publish e k s)) = spawned s" using assms
    by (simp add: publish_def Let_def)
  show "recordingProcesses (snd (publish e k s)) = recordingProcesses s" using assms
    by (simp add: publish_def Let_def)
  show "signals (snd (publish e k s)) = signals s" using assms
    by (simp add: publish_def Let_def)
qed

text \<open>
  Claim C1, as the code has it. For a stream whose row says \<^verbatim>\<open>live\<close>, \<^verbatim>\<open>startStream\<close>
  throws \<^verbatim>\<open>Stream is already live\<close> and leaves the whole state as it was (nothing is
  written, nothing is spawned). The ingest callback \<^verbatim>\<open>/publish\<close> with the key of that
  stream has no such guard: it answers 200 OK; the row still says \<^verbatim>\<open>live\<close>, no process
  is spawned and the handle map is untouched.
\<close>

theorem start_on_live_api_rejects_ingest_accepts:
  assumes "getStream sid s = Some r" and "status r = ''live''"
  shows "startStream e sid s = (Inl (Error ''Stream is already live''), s) \<and>
         (select_by_ingest_key k s = Some r \<longrightarrow>
            fst (publish e k s) = (200, ''OK'') \<and>
            status_of sid (snd (publish e k s)) = Some ''live'' \<and>
            spawned (snd (publish e k s)) = spawned s \<and>
            recordingProcesses (snd (publish e k s)) = recordingProcesses s)"
  using startStream_live[OF assms] publish_known[of k s r e] getStream_id[OF assms(1)]
  by simp

text \<open>The theorem at the live stream \<open>s1\<close> with ingest key \<open>k1\<close>.\<close>

theorem start_on_live_witness:
  "getStream ''s1'' st_live = Some row_live \<and> status row_live = ''live'' \<and>
   select_by_ingest_key ''k1'' st_live = Some row_live \<and>
   startStream env0 ''s1'' st_live = (Inl (Error ''Stream is already live''), st_live) \<and>
   fst (publish env0 ''k1'' st_live) = (200, ''OK'') \<and>
   status_of ''s1'' (snd (publish env0 ''k1'' st_live)) = Some ''live'' \<and>
   spawned (snd (publish env0 ''k1'' st_live)) = spawned st_live \<and>
   recordingProcesses (snd (publish env0 ''k1'' st_live)) = recordingProcesses st_live"
proof -
  have h1: "getStream ''s1'' st_live = Some row_live"
    by (simp add: getStream_def st_live_def st_empty_def row_live_def row_created_def)
  have h2: "status row_live = ''live''" by (simp add: row_live_def)
  have h3: "select_by_ingest_key ''k1'' st_live = Some row_live"
    by (simp add: select_by_ingest_key_def st_live_def st_empty_def row_live_def row_created_def)
  show ?thesis
    using start_on_live_api_rejects_ingest_accepts[OF h1 h2, of env0 "''k1''"] h1 h2 h3 by simp
qed

text \<open>Against the claim as the specification words it: the stream \<open>s1\<close> is live since
  1000, and \<^verbatim>\<open>/publish\<close> with its key at time 5000 is answered 200 OK, moves
  \<^verbatim>\<open>start_time\<close> to 5000 and adds an event row.\<close>

theorem publish_on_live_counterexample:
  "status_of ''s1'' st_live = Some ''live'' \<and>
   fst (publish env0 ''k1'' st_live) = (200, ''OK'') \<and>
   map_option start_time (getStream ''s1'' st_live) = Some (Some 1000) \<and>
   map_option start_time (getStream ''s1'' (snd (publish env0 ''k1'' st_live))) = Some (Some 5000) \<and>
   length (stream_events (snd (publish env0 ''k1'' st_live))) = length (stream_events st_live) + 1"
  by (simp add: ex_defs op_defs)


section \<open>The status a trigger writes\<close>

lemma status_of_update_streams:
  assumes "\<And>r. stream_id (f r) = stream_id r" and "\<And>r. status (f r) = v"
  shows "status_of x (update_streams e sid f s) =
         (if x = sid then map_option (\<lambda>_. v) (status_of x s) else status_of x s)"
proof (cases "getStream x s")
  case None
  then show ?thesis by (auto simp add: status_of_def getStream_update_streams assms(1))
next
  case (Some r)
  then show ?thesis using getStream_id[OF Some]
    by (auto simp add: status_of_def getStream_update_streams assms)
qed

lemma status_of_update_streams_keep:
  assumes "\<And>r. stream_id (f r) = stream_id r" and "\<And>r. status (f r) = status r"
  shows "status_of x (update_streams e sid f s) = status_of x s"
proof (cases "getStream x s")
  case None
  then show ?thesis by (simp add: status_of_def getStream_update_streams assms(1))
next
  case (Some r)
  then show ?thesis
    by (simp add: status_of_def getStream_update_streams assms)
qed

lemma status_of_frame [simp]:
  "status_of x (insert_event e sid ty d s) = status_of x s"
  "status_of x (snd (broadcast e ty d s)) = status_of x s"
  "status_of x (stopRecording sid s) = status_of x s"
  "status_of x (offload e r sid s) = status_of x s"
  "status_of x (logStreamEvent e sid ty d s) = status_of x s"
  "status_of x (mkdirSync p s) = status_of x s"
  "status_of x (s\<lparr>spawned := c\<rparr>) = status_of x s"
  "status_of x (s\<lparr>recordingProcesses := b\<rparr>) = status_of x s"
  by (simp_all add: status_of_def logStreamEvent_def mkdirSync_def)

lemma status_of_startRecording:
  "status_of x (snd (startRecording e r s)) = status_of x s"
  by (simp add: startRecording_def Let_def status_of_update_streams_keep)

lemma status_of_startStream:
  "status_of x (snd (startStream e sid s)) =
   (if x = sid then map_option (\<lambda>_. ''live'') (status_of x s) else status_of x s)"
proof (cases "getStream sid s")
  case None
  then show ?thesis by (simp add: startStream_def status_of_def)
next
  case (Some r)
  show ?thesis
  proof (cases "status r = ''live''")
    case True
    then show ?thesis using Some by (simp add: startStream_def status_of_def)
  next
    case False
    let ?s1 = "update_streams e sid (\<lambda>r. r\<lparr>status := ''live'', start_time := Some (db_now e)\<rparr>) s"
    have s1: "status_of x ?s1 =
      (if x = sid then map_option (\<lambda>_. ''live'') (status_of x s) else status_of x s)"
      by (rule status_of_update_streams) simp_all
    have "status_of x (snd (startStream e sid s)) = status_of x (snd (startRecording e r ?s1))"
      using Some False
      by (cases "startRecording e r ?s1"; cases "fst (startRecording e r ?s1)")
         (simp_all add: startStream_def Let_def)
    then show ?thesis by (simp only: status_of_startRecording s1)
  qed
qed

lemma status_of_stopStream:
  "status_of x (snd (stopStream e sid s)) =
   (if x = sid then map_option (\<lambda>_. ''ended'') (status_of x s) else status_of x s)"
proof (cases "getStream sid s")
  case None
  then show ?thesis by (simp add: stopStream_def status_of_def)
next
  case (Some r)
  have "status_of x (snd (stopStream e sid s)) =
        status_of x (update_streams e sid
           (\<lambda>z. z\<lparr>status := ''ended'', end_time := Some (db_now e),
                  duration := Some (calc_duration e r)\<rparr>) (stopRecording sid s))"
    using Some by (simp add: stopStream_def Let_def)
  also have "\<dots> = (if x = sid then map_option (\<lambda>_. ''ended'') (status_of x (stopRecording sid s))
                    else status_of x (stopRecording sid s))"
    by (rule status_of_update_streams) simp_all
  finally show ?thesis by simp
qed

lemma status_of_publish:
  "status_of x (snd (publish e k s)) =
   (if map_option stream_id (select_by_ingest_key k s) = Some x
    then map_option (\<lambda>_. ''live'') (status_of x s) else status_of x s)"
proof (cases "select_by_ingest_key k s")
  case None
  then show ?thesis by (simp add: publish_def)
next
  case (Some r)
  have "status_of x (snd (publish e k s)) =
        status_of x (update_streams e (stream_id r)
           (\<lambda>z. z\<lparr>status := ''live'', start_time := Some (db_now e)\<rparr>) s)"
    using Some by (simp add: publish_def Let_def)
  also have "\<dots> = (if x = stream_id r then map_option (\<lambda>_. ''live'') (status_of x s)
                    else status_of x s)"
    by (rule status_of_update_streams) simp_all
  finally show ?thesis using Some by auto
qed

lemma status_of_unpublish:
  "status_of x (snd (unpublish e k s)) =
   (if map_option stream_id (select_by_ingest_key k s) = Some x
    then map_option (\<lambda>_. ''ended'') (status_of x s) else status_of x s)"
proof (cases "select_by_ingest_key k s")
  case None
  then show ?thesis by (simp add: unpublish_def)
next
  case (Some r)
  have "status_of x (snd (unpublish e k s)) =
        status_of x (update_streams e (stream_id r)
           (\<lambda>z. z\<lparr>status := ''ended'', end_time := Some (db_now e),
                  duration := Some (calc_duration e r)\<rparr>) s)"
    using Some by (simp add: unpublish_def Let_def)
  also have "\<dots> = (if x = stream_id r then map_option (\<lambda>_. ''ended'') (status_of x s)
                    else status_of x s)"
    by (rule status_of_update_streams) simp_all
  finally show ?thesis using Some by auto
qed

lemma status_of_ffmpeg_on_close: "status_of x (ffmpeg_on_close sid s) = status_of x s"
  by (simp add: ffmpeg_on_close_def)

lemma snd_fire:
  "snd (fire e (Start sid) s) = snd (startStream e sid s)"
  "snd (fire e (Stop sid) s) = snd (stopStream e sid s)"
  "snd (fire e (IngestBegun k) s) = snd (publish e k s)"
  "snd (fire e (IngestEnded k) s) = snd (unpublish e k s)"
  "snd (fire e (ProcessExited sid) s) = ffmpeg_on_close sid s"
  by (simp_all split: prod.splits)

lemma fire_start_live:
  assumes "status_of sid s = Some ''live''"
  shows "fire e (Start sid) s = (False, s)"
proof -
  obtain r where "getStream sid s = Some r" and "status r = ''live''"
    using assms by (auto simp: status_of_def)
  then show ?thesis by (simp add: startStream_def succeeded_def)
qed

lemma written_or_kept:
  "(if c then map_option (\<lambda>_. v) w else w) = w \<or>
   (if c then map_option (\<lambda>_. v) w else w) = Some v"
  by (cases w) auto

lemma status_of_fire_cases:
  "status_of x (snd (fire e t s)) = status_of x s \<or>
   status_of x (snd (fire e t s)) = Some ''live'' \<or>
   status_of x (snd (fire e t s)) = Some ''ended''"
proof (cases t)
  case (Start sid)
  show ?thesis
    using written_or_kept[of "x = sid" "''live''" "status_of x s"]
    by (simp only: Start snd_fire status_of_startStream) blast
next
  case (Stop sid)
  show ?thesis
    using written_or_kept[of "x = sid" "''ended''" "status_of x s"]
    by (simp only: Stop snd_fire status_of_stopStream) blast
next
  case (IngestBegun k)
  show ?thesis
    using written_or_kept[of "map_option stream_id (select_by_ingest_key k s) = Some x"
            "''live''" "status_of x s"]
    by (simp only: IngestBegun snd_fire status_of_publish) blast
next
  case (IngestEnded k)
  show ?thesis
    using written_or_kept[of "map_option stream_id (select_by_ingest_key k s) = Some x"
            "''ended''" "status_of x s"]
    by (simp only: IngestEnded snd_fire status_of_unpublish) blast
next
  case (ProcessExited sid)
  show ?thesis by (simp only: ProcessExited snd_fire status_of_ffmpeg_on_close simp_thms)
qed

lemma status_of_run_cases:
  "status_of x (run ts s) = status_of x s \<or>
   status_of x (run ts s) = Some ''live'' \<or>
   status_of x (run ts s) = Some ''ended''"
proof (induction ts arbitrary: s)
  case Nil
  then show ?case by simp
next
  case (Cons a ts)
  obtain e t where a: "a = (e, t)" by (cases a)
  have r: "run (a # ts) s = run ts (snd (fire e t s))" by (simp add: a del: fire.simps)
  show ?case
    using Cons.IH[of "snd (fire e t s)"] status_of_fire_cases[of x e t s]
    by (auto simp only: r)
qed

text \<open>
  Claim C2, as the code has it. The status of a stream changes by these rules and no
  others: \<^verbatim>\<open>startStream\<close> and the publish signal write \<^verbatim>\<open>live\<close>, \<^verbatim>\<open>stopStream\<close> and the
  unpublish signal write \<^verbatim>\<open>ended\<close>, each whatever the row said before (also \<^verbatim>\<open>ended\<close>
  or \<^verbatim>\<open>error\<close>) and only on the stream the trigger addresses; the exit of a recording
  process changes no status; \<^verbatim>\<open>error\<close> is written by no trigger. The one rejection by
  status is \<^verbatim>\<open>startStream\<close> on a stream that is \<^verbatim>\<open>live\<close>, which leaves the state as it
  was. Hence after any sequence of triggers a stream has the status it had at first, or
  \<^verbatim>\<open>live\<close>, or \<^verbatim>\<open>ended\<close>.
\<close>

theorem status_written_by_each_trigger:
  "status_of x (snd (fire e (Start sid) s)) =
     (if x = sid then map_option (\<lambda>_. ''live'') (status_of x s) else status_of x s) \<and>
   status_of x (snd (fire e (Stop sid) s)) =
     (if x = sid then map_option (\<lambda>_. ''ended'') (status_of x s) else status_of x s) \<and>
   status_of x (snd (fire e (IngestBegun k) s)) =
     (if map_option stream_id (select_by_ingest_key k s) = Some x
      then map_option (\<lambda>_. ''live'') (status_of x s) else status_of x s) \<and>
   status_of x (snd (fire e (IngestEnded k) s)) =
     (if map_option stream_id (select_by_ingest_key k s) = Some x
      then map_option (\<lambda>_. ''ended'') (status_of x s) else status_of x s) \<and>
   status_of x (snd (fire e (ProcessExited sid) s)) = status_of x s \<and>
   (status_of sid s = Some ''live'' \<longrightarrow> fire e (Start sid) s = (False, s)) \<and>
   (status_of x (run ts s) = status_of x s \<or>
    status_of x (run ts s) = Some ''live'' \<or>
    status_of x (run ts s) = Some ''ended'')"
  using fire_start_live[of sid s e] status_of_run_cases[of x ts s]
  by (simp add: snd_fire status_of_startStream status_of_stopStream status_of_publish
        status_of_unpublish status_of_ffmpeg_on_close del: fire.simps run.simps)

text \<open>The theorem at the live stream \<open>s1\<close>: a start is rejected, a stop and an unpublish
  end it, a publish and a process exit leave it live.\<close>

theorem status_written_witness:
  "status_of ''s1'' st_live = Some ''live'' \<and>
   fire env0 (Start ''s1'') st_live = (False, st_live) \<and>
   status_of ''s1'' (snd (fire env0 (Start ''s1'') st_live)) = Some ''live'' \<and>
   status_of ''s1'' (snd (fire env0 (Stop ''s1'') st_live)) = Some ''ended'' \<and>
   status_of ''s1'' (snd (fire env0 (IngestBegun ''k1'') st_live)) = Some ''live'' \<and>
   status_of ''s1'' (snd (fire env0 (IngestEnded ''k1'') st_live)) = Some ''ended'' \<and>
   status_of ''s1'' (snd (fire env0 (ProcessExited ''s1'') st_live)) = Some ''live''"
proof -
  have h: "status_of ''s1'' st_live = Some ''live''"
    by (simp add: status_of_def getStream_def st_live_def st_empty_def row_live_def row_created_def)
  have k: "map_option stream_id (select_by_ingest_key ''k1'' st_live) = Some ''s1''"
    by (simp add: select_by_ingest_key_def st_live_def st_empty_def row_live_def row_created_def)
  show ?thesis
    using status_written_by_each_trigger[of "''s1''" env0 "''s1''" st_live "''k1''" "[]"] h k
    by (simp del: fire.simps)
qed

text \<open>Against the claim as the specification words it: the stream \<open>s1\<close>, created, is
  started and stopped, and a second \<^verbatim>\<open>startStream\<close> is accepted and makes the ended
  stream live again.\<close>

theorem ended_returns_to_live_counterexample:
  "status_of ''s1'' (run [(env0, Start ''s1''), (env0, Stop ''s1'')] st_created) = Some ''ended'' \<and>
   fst (fire env0 (Start ''s1'') (run [(env0, Start ''s1''), (env0, Stop ''s1'')] st_created)) \<and>
   status_of ''s1'' (run [(env0, Start ''s1''), (env0, Stop ''s1''), (env0, Start ''s1'')] st_created)
     = Some ''live''"
  by (simp add: ex_defs op_defs)


section \<open>The exit of a recording process\<close>

lemma Map_get_Map_delete: "Map_get (Map_delete k m) k = None"
  by (induction m) (auto simp: Map_get_def Map_delete_def)

lemma Map_get_Map_delete_other: "x \<noteq> k \<Longrightarrow> Map_get (Map_delete k m) x = Map_get m x"
  by (induction m) (auto simp: Map_get_def Map_delete_def)

text \<open>
  Claim C7, as the code has it. When the recording process of a stream exits or fails,
  its \<^verbatim>\<open>close\<close> or \<^verbatim>\<open>error\<close> handler removes the stream's handle from
  \<^verbatim>\<open>recordingProcesses\<close> and does nothing else: the rows of \<^verbatim>\<open>streams\<close> (so the status,
  which stays \<^verbatim>\<open>live\<close>), the event log and the sockets (no notification) are as before,
  and the handles of other streams stay.
\<close>

theorem process_exit_only_removes_handle:
  "Map_get (recordingProcesses (ffmpeg_on_close sid s)) sid = None \<and>
   Map_get (recordingProcesses (ffmpeg_on_error sid s)) sid = None \<and>
   ffmpeg_on_close sid s = s\<lparr>recordingProcesses := Map_delete sid (recordingProcesses s)\<rparr> \<and>
   ffmpeg_on_error sid s = ffmpeg_on_close sid s \<and>
   streams (ffmpeg_on_close sid s) = streams s \<and>
   status_of x (ffmpeg_on_close sid s) = status_of x s \<and>
   stream_events (ffmpeg_on_close sid s) = stream_events s \<and>
   clients (ffmpeg_on_close sid s) = clients s \<and>
   (x \<noteq> sid \<longrightarrow> Map_get (recordingProcesses (ffmpeg_on_close sid s)) x =
                   Map_get (recordingProcesses s) x)"
  by (simp add: ffmpeg_on_close_def ffmpeg_on_error_def Map_get_Map_delete
        Map_get_Map_delete_other status_of_def)

text \<open>The theorem at the recording stream \<open>s1\<close>, seen from another stream id.\<close>

theorem process_exit_witness:
  "''s2'' \<noteq> ''s1'' \<and>
   Map_get (recordingProcesses st_recording) ''s1'' = Some 0 \<and>
   Map_get (recordingProcesses (ffmpeg_on_close ''s1'' st_recording)) ''s1'' = None \<and>
   status_of ''s1'' (ffmpeg_on_close ''s1'' st_recording) = status_of ''s1'' st_recording \<and>
   Map_get (recordingProcesses (ffmpeg_on_close ''s1'' st_recording)) ''s2'' =
     Map_get (recordingProcesses st_recording) ''s2''"
proof -
  have a: "''s2'' \<noteq> ''s1''" by simp
  have b: "Map_get (recordingProcesses st_recording) ''s1'' = Some 0"
    by (simp add: Map_get_def st_recording_def st_empty_def)
  show ?thesis
    using process_exit_only_removes_handle[of "''s1''" st_recording "''s1''"]
          process_exit_only_removes_handle[of "''s1''" st_recording "''s2''"] a b
    by blast
qed

text \<open>Against the claim as the specification words it: the stream \<open>s1\<close> is live and
  recording, a socket is connected; after the process has exited the row still says
  \<^verbatim>\<open>live\<close>, no event has been logged and nothing has been sent to the socket.\<close>

theorem process_exit_counterexample:
  "status_of ''s1'' (st_recording\<lparr>clients := [ws_good]\<rparr>) = Some ''live'' \<and>
   Map_get (recordingProcesses (st_recording\<lparr>clients := [ws_good]\<rparr>)) ''s1'' = Some 0 \<and>
   status_of ''s1'' (snd (fire env0 (ProcessExited ''s1'') (st_recording\<lparr>clients := [ws_good]\<rparr>)))
     = Some ''live'' \<and>
   stream_events (snd (fire env0 (ProcessExited ''s1'') (st_recording\<lparr>clients := [ws_good]\<rparr>)))
     = [] \<and>
   map sent (clients (snd (fire env0 (ProcessExited ''s1'') (st_recording\<lparr>clients := [ws_good]\<rparr>))))
     = [[]]"
  by (simp add: ex_defs op_defs)


section \<open>Replacing the metadata\<close>

lemma getStream_None_iff: "getStream sid s = None \<longleftrightarrow> (\<forall>r\<in>set (streams s). stream_id r \<noteq> sid)"
  by (auto simp: getStream_def find_None_iff)

lemma update_streams_absent:
  assumes "getStream sid s = None"
  shows "update_streams e sid f s = s"
proof -
  have "map (\<lambda>r. if stream_id r = sid then (f r)\<lparr>updated_at := db_now e\<rparr> else r) (streams s)
        = streams s"
    using assms by (intro map_idI) (simp add: getStream_None_iff)
  then show ?thesis by (simp add: update_streams_def)
qed

text \<open>
  Claim C10, as the code has it. \<^verbatim>\<open>updateStreamMetadata\<close> never throws. For a stream id
  that has a row, the row afterwards is the old row with \<^verbatim>\<open>metadata\<close> replaced by the
  given value (no merge) and \<^verbatim>\<open>updated_at\<close> set to \<^verbatim>\<open>NOW()\<close> by the table's trigger;
  every other column keeps its value. The rows of other streams and everything outside
  the table are as before, and for an unknown id the state does not change at all.
\<close>

theorem updateStreamMetadata_replaces_metadata:
  "fst (updateStreamMetadata e sid md s) = Inr () \<and>
   (getStream sid s = Some r \<longrightarrow>
      getStream sid (snd (updateStreamMetadata e sid md s)) =
        Some (r\<lparr>metadata := md, updated_at := db_now e\<rparr>)) \<and>
   (x \<noteq> sid \<longrightarrow> getStream x (snd (updateStreamMetadata e sid md s)) = getStream x s) \<and>
   (snd (updateStreamMetadata e sid md s))\<lparr>streams := streams s\<rparr> = s \<and>
   (getStream sid s = None \<longrightarrow> snd (updateStreamMetadata e sid md s) = s)"
proof -
  have a: "getStream sid s = Some r \<Longrightarrow>
      getStream sid (snd (updateStreamMetadata e sid md s)) =
        Some (r\<lparr>metadata := md, updated_at := db_now e\<rparr>)"
    using getStream_id[of sid s r]
    by (simp add: updateStreamMetadata_def getStream_update_streams)
  have b: "x \<noteq> sid \<Longrightarrow> getStream x (snd (updateStreamMetadata e sid md s)) = getStream x s"
    using getStream_id[of x s]
    by (cases "getStream x s") (simp_all add: updateStreamMetadata_def getStream_update_streams)
  have c: "(snd (updateStreamMetadata e sid md s))\<lparr>streams := streams s\<rparr> = s"
    by (simp add: updateStreamMetadata_def update_streams_def)
  have d: "getStream sid s = None \<Longrightarrow> snd (updateStreamMetadata e sid md s) = s"
    by (simp add: updateStreamMetadata_def update_streams_absent)
  show ?thesis using a b c d by (simp add: updateStreamMetadata_def)
qed

text \<open>The theorem at the stream \<open>s1\<close>, and at the unknown id \<open>s2\<close>.\<close>

theorem updateStreamMetadata_witness:
  "getStream ''s1'' st_live = Some row_live \<and> ''s2'' \<noteq> ''s1'' \<and> getStream ''s2'' st_live = None \<and>
   getStream ''s1'' (snd (updateStreamMetadata env0 ''s1'' (JObj [(''quizEnabled'', JBool True)]) st_live))
     = Some (row_live\<lparr>metadata := JObj [(''quizEnabled'', JBool True)], updated_at := 5000\<rparr>) \<and>
   updateStreamMetadata env0 ''s2'' (JObj [(''quizEnabled'', JBool True)]) st_live = (Inr (), st_live)"
proof -
  have h1: "getStream ''s1'' st_live = Some row_live"
    by (simp add: getStream_def st_live_def st_empty_def row_live_def row_created_def)
  have h2: "getStream ''s2'' st_live = None"
    by (simp add: getStream_def st_live_def st_empty_def row_live_def row_created_def)
  have n: "db_now env0 = 5000" by (simp add: env0_def)
  show ?thesis
    using updateStreamMetadata_replaces_metadata
            [of env0 "''s1''" "JObj [(''quizEnabled'', JBool True)]" st_live row_live "''s2''"]
          updateStreamMetadata_replaces_metadata
            [of env0 "''s2''" "JObj [(''quizEnabled'', JBool True)]" st_live row_live "''s1''"]
          h1 h2 n
    by (simp add: prod_eq_iff)
qed

text \<open>Against the claim as first worded (every other field unchanged): the row of \<open>s1\<close>
  was last updated at 0, and after \<^verbatim>\<open>updateStreamMetadata\<close> at time 5000 its
  \<^verbatim>\<open>updated_at\<close> is 5000.\<close>

theorem updateStreamMetadata_counterexample:
  "map_option updated_at (getStream ''s1'' st_created) = Some 0 \<and>
   map_option updated_at
     (getStream ''s1'' (snd (updateStreamMetadata env0 ''s1'' (JObj []) st_created))) = Some 5000"
  by (simp add: ex_defs op_defs)


section \<open>Broadcast to the connected sockets\<close>


lemma forEach_send_result:
  "fst (forEach_send m cs) =
     (case find (\<lambda>c. readyState c = 1 \<and> send_throws c) cs of
        None \<Rightarrow> Inr () | Some c \<Rightarrow> Inl (SendError (ws_id c)))"
  by (induction cs) (auto split: prod.splits)


lemma forEach_send_flags:
  "map (\<lambda>c. (readyState c, send_throws c)) (snd (forEach_send m cs)) =
   map (\<lambda>c. (readyState c, send_throws c)) cs"
  by (induction cs) (auto split: prod.splits)

lemma forEach_send_ok:
  "(fst (forEach_send m cs) = Inr ()) = (\<forall>c\<in>set cs. \<not> (readyState c = 1 \<and> send_throws c))"
  by (induction cs) (auto split: prod.splits)

lemma forEach_send_not_Error: "fst (forEach_send m cs) \<noteq> Inl (Error x)"
  by (induction cs) (auto split: prod.splits)

lemma broadcast_clients:
  "clients (snd (broadcast e ty d s)) =
     snd (forEach_send \<lparr>msg_type = ty, msg_data = d, msg_timestamp = msg_now e\<rparr> (clients s))"
  by (simp add: broadcast_def split: prod.splits)

lemma broadcast_result:
  "fst (broadcast e ty d s) =
     fst (forEach_send \<lparr>msg_type = ty, msg_data = d, msg_timestamp = msg_now e\<rparr> (clients s))"
  by (simp add: broadcast_def split: prod.splits)





section \<open>Stopping twice\<close>

lemma stopRecording_no_handle:
  "Map_get (recordingProcesses s) sid = None \<Longrightarrow> stopRecording sid s = s"
  by (simp add: stopRecording_def)

lemma stopRecording_removes:
  "Map_get (recordingProcesses (stopRecording sid s)) sid = None"
  by (cases "Map_get (recordingProcesses s) sid") (simp_all add: stopRecording_def Map_get_Map_delete)

lemma stopStream_handles:
  assumes "getStream sid s = Some r"
  shows "recordingProcesses (snd (stopStream e sid s)) = recordingProcesses (stopRecording sid s)"
  using assms by (simp add: stopStream_def Let_def logStreamEvent_def)

lemma stopStream_events:
  assumes "getStream sid s = Some r"
  shows "stream_events (snd (stopStream e sid s)) = stream_events s @
           [\<lparr>ev_stream_id = sid, event_type = ''stream_ended'',
             event_data = JObj [(''duration'', JNum (calc_duration e r)),
                                (''max_viewers'', JNum (max_viewers r))],
             ev_timestamp = db_now e\<rparr>]"
  using assms by (simp add: stopStream_def Let_def logStreamEvent_def insert_event_def)

lemma stopStream_clients:
  assumes "getStream sid s = Some r"
  shows "\<exists>m. fst (stopStream e sid s) = fst (forEach_send m (clients s)) \<and>
             clients (snd (stopStream e sid s)) = snd (forEach_send m (clients s))"
proof -
  let ?m = "\<lparr>msg_type = ''stream_ended'',
              msg_data = JObj [(''streamId'', JStr sid), (''duration'', JNum (calc_duration e r)),
                               (''status'', JStr ''ended'')],
              msg_timestamp = msg_now e\<rparr>"
  have "fst (stopStream e sid s) = fst (forEach_send ?m (clients s))"
    using assms
    by (simp add: stopStream_def Let_def logStreamEvent_def broadcast_result)
  moreover have "clients (snd (stopStream e sid s)) = snd (forEach_send ?m (clients s))"
    using assms
    by (simp add: stopStream_def Let_def logStreamEvent_def broadcast_clients)
  ultimately show ?thesis by blast
qed

lemma no_throw_kept:
  assumes "list_all (\<lambda>c. \<not> (readyState c = 1 \<and> send_throws c)) cs"
  shows "list_all (\<lambda>c. \<not> (readyState c = 1 \<and> send_throws c)) (snd (forEach_send m cs))"
  using assms by (induction cs) (auto split: prod.splits)

lemma no_throw_ok:
  assumes "list_all (\<lambda>c. \<not> (readyState c = 1 \<and> send_throws c)) cs"
  shows "fst (forEach_send m cs) = Inr ()"
  using assms by (simp add: forEach_send_ok list_all_iff)

text \<open>
  Claim C5, as the code has it. After \<^verbatim>\<open>stopStream\<close> on a stream that has a row, the
  row says \<^verbatim>\<open>ended\<close> and the stream has no handle. A second \<^verbatim>\<open>stopStream\<close> is not
  rejected: it throws no \<^verbatim>\<open>Error\<close> (with no throwing socket both calls return
  normally), the row says \<^verbatim>\<open>ended\<close> with \<^verbatim>\<open>end_time\<close> and \<^verbatim>\<open>duration\<close> written again
  from the clocks of the second call, and a second \<^verbatim>\<open>stream_ended\<close> event is logged.
  \<^verbatim>\<open>stopRecording\<close> for a stream without a handle changes nothing and does not throw.
\<close>

theorem stopStream_twice:
  assumes "getStream sid s = Some r"
  shows "status_of sid (snd (stopStream e1 sid s)) = Some ''ended'' \<and>
         Map_get (recordingProcesses (snd (stopStream e1 sid s))) sid = None \<and>
         (\<forall>x. fst (stopStream e2 sid (snd (stopStream e1 sid s))) \<noteq> Inl (Error x)) \<and>
         (list_all (\<lambda>c. \<not> (readyState c = 1 \<and> send_throws c)) (clients s) \<longrightarrow>
            fst (stopStream e1 sid s) = Inr () \<and>
            fst (stopStream e2 sid (snd (stopStream e1 sid s))) = Inr ()) \<and>
         getStream sid (snd (stopStream e2 sid (snd (stopStream e1 sid s)))) =
           Some (r\<lparr>status := ''ended'', end_time := Some (db_now e2),
                   duration := Some (calc_duration e2 r), updated_at := db_now e2\<rparr>) \<and>
         length (stream_events (snd (stopStream e2 sid (snd (stopStream e1 sid s))))) =
           length (stream_events (snd (stopStream e1 sid s))) + 1 \<and>
         (Map_get (recordingProcesses s) sid = None \<longrightarrow> stopRecording sid s = s)"
proof -
  let ?s1 = "snd (stopStream e1 sid s)"
  let ?r1 = "r\<lparr>status := ''ended'', end_time := Some (db_now e1),
                 duration := Some (calc_duration e1 r), updated_at := db_now e1\<rparr>"
  have r1: "getStream sid ?s1 = Some ?r1" by (rule stopStream_row[OF assms])
  have a: "status_of sid ?s1 = Some ''ended''" by (simp add: status_of_def r1)
  have b: "Map_get (recordingProcesses ?s1) sid = None"
    by (simp add: stopStream_handles[OF assms] stopRecording_removes)
  obtain m1 where m1: "fst (stopStream e1 sid s) = fst (forEach_send m1 (clients s))"
      "clients ?s1 = snd (forEach_send m1 (clients s))"
    using stopStream_clients[OF assms] by blast
  obtain m2 where m2: "fst (stopStream e2 sid ?s1) = fst (forEach_send m2 (clients ?s1))"
    using stopStream_clients[OF r1] by blast
  have c: "\<forall>x. fst (stopStream e2 sid ?s1) \<noteq> Inl (Error x)"
    by (simp add: m2 forEach_send_not_Error)
  have d: "fst (stopStream e1 sid s) = Inr () \<and> fst (stopStream e2 sid ?s1) = Inr ()"
    if "list_all (\<lambda>c. \<not> (readyState c = 1 \<and> send_throws c)) (clients s)"
    using no_throw_ok[OF that, of m1] no_throw_ok[OF no_throw_kept[OF that], of m2 m1]
    by (simp only: m1 m2 simp_thms)
  have f: "getStream sid (snd (stopStream e2 sid ?s1)) =
           Some (r\<lparr>status := ''ended'', end_time := Some (db_now e2),
                   duration := Some (calc_duration e2 r), updated_at := db_now e2\<rparr>)"
    by (simp add: stopStream_row[OF r1] calc_duration_def)
  have g: "length (stream_events (snd (stopStream e2 sid ?s1))) = length (stream_events ?s1) + 1"
    by (simp add: stopStream_events[OF r1])
  have h: "Map_get (recordingProcesses s) sid = None \<longrightarrow> stopRecording sid s = s"
    by (simp add: stopRecording_no_handle)
  from a b c d f g h show ?thesis by blast
qed

text \<open>The theorem at the live stream \<open>s1\<close>, which has no handle and no socket.\<close>

theorem stopStream_twice_witness:
  "getStream ''s1'' st_live = Some row_live \<and>
   list_all (\<lambda>c. \<not> (readyState c = 1 \<and> send_throws c)) (clients st_live) \<and>
   Map_get (recordingProcesses st_live) ''s1'' = None \<and>
   status_of ''s1'' (snd (stopStream env0 ''s1'' st_live)) = Some ''ended'' \<and>
   fst (stopStream env0 ''s1'' st_live) = Inr () \<and>
   fst (stopStream (env0\<lparr>db_now := 9000, date_now := 9000\<rparr>) ''s1''
          (snd (stopStream env0 ''s1'' st_live))) = Inr () \<and>
   getStream ''s1'' (snd (stopStream (env0\<lparr>db_now := 9000, date_now := 9000\<rparr>) ''s1''
          (snd (stopStream env0 ''s1'' st_live)))) =
     Some (row_live\<lparr>status := ''ended'', end_time := Some 9000, duration := Some 8,
            updated_at := 9000\<rparr>) \<and>
   stopRecording ''s1'' st_live = st_live"
proof -
  have h1: "getStream ''s1'' st_live = Some row_live"
    by (simp add: getStream_def st_live_def st_empty_def row_live_def row_created_def)
  have h2: "list_all (\<lambda>c. \<not> (readyState c = 1 \<and> send_throws c)) (clients st_live)"
    by (simp add: st_live_def st_empty_def)
  have h3: "Map_get (recordingProcesses st_live) ''s1'' = None"
    by (simp add: Map_get_def st_live_def st_empty_def)
  have d: "calc_duration (env0\<lparr>db_now := 9000, date_now := 9000\<rparr>) row_live = 8"
    by (simp add: calc_duration_def env0_def row_live_def)
  show ?thesis
    using stopStream_twice[OF h1, of env0 "env0\<lparr>db_now := 9000, date_now := 9000\<rparr>"] h1 h2 h3 d
    by simp
qed

text \<open>Against the claim as the specification words it: the live stream \<open>s1\<close> is stopped
  at 5000 and again at 9000; the second call returns normally, moves \<^verbatim>\<open>end_time\<close> from
  5000 to 9000 and \<^verbatim>\<open>duration\<close> from 4 to 8, and logs a second event.\<close>

theorem stopStream_twice_counterexample:
  "fst (stopStream env0 ''s1'' st_live) = Inr () \<and>
   map_option end_time (getStream ''s1'' (snd (stopStream env0 ''s1'' st_live))) = Some (Some 5000) \<and>
   map_option duration (getStream ''s1'' (snd (stopStream env0 ''s1'' st_live))) = Some (Some 4) \<and>
   fst (stopStream (env0\<lparr>db_now := 9000, date_now := 9000\<rparr>) ''s1''
          (snd (stopStream env0 ''s1'' st_live))) = Inr () \<and>
   map_option end_time (getStream ''s1''
      (snd (stopStream (env0\<lparr>db_now := 9000, date_now := 9000\<rparr>) ''s1''
          (snd (stopStream env0 ''s1'' st_live))))) = Some (Some 9000) \<and>
   map_option duration (getStream ''s1''
      (snd (stopStream (env0\<lparr>db_now := 9000, date_now := 9000\<rparr>) ''s1''
          (snd (stopStream env0 ''s1'' st_live))))) = Some (Some 8) \<and>
   map event_type (stream_events
      (snd (stopStream (env0\<lparr>db_now := 9000, date_now := 9000\<rparr>) ''s1''
          (snd (stopStream env0 ''s1'' st_live))))) = [''stream_ended'', ''stream_ended'']"
  by (simp add: ex_defs op_defs)


section \<open>The timing columns\<close>

lemma startStream_start_time:
  assumes "getStream sid s = Some r" and "status r \<noteq> ''live''"
  shows "\<exists>r1. getStream sid (snd (startStream e sid s)) = Some r1 \<and>
              start_time r1 = Some (db_now e) \<and> status r1 = ''live''"
proof (cases "existsSync (hlsDir_of e sid) s \<or> \<not> mkdir_fails e (hlsDir_of e sid)")
  case True
  show ?thesis by (simp add: startStream_ok_row(1)[OF assms True])
next
  case False
  then have "\<not> existsSync (hlsDir_of e sid) s" and "mkdir_fails e (hlsDir_of e sid)" by simp_all
  from startStream_fails_row[OF assms this] show ?thesis
    using assms(1) getStream_id[OF assms(1)] by (simp add: getStream_update_streams)
qed

lemma publish_row:
  assumes "select_by_ingest_key k s = Some r" and "getStream sid s = Some r"
  shows "getStream sid (snd (publish e k s)) =
         Some (r\<lparr>status := ''live'', start_time := Some (db_now e), updated_at := db_now e\<rparr>)"
  using assms getStream_id[OF assms(2)]
  by (simp add: publish_def Let_def getStream_update_streams)

lemma unpublish_row:
  assumes "select_by_ingest_key k s = Some r" and "getStream sid s = Some r"
  shows "getStream sid (snd (unpublish e k s)) =
         Some (r\<lparr>status := ''ended'', end_time := Some (db_now e),
                 duration := Some (calc_duration e r), updated_at := db_now e\<rparr>)"
  using assms getStream_id[OF assms(2)]
  by (simp add: unpublish_def Let_def getStream_update_streams)

text \<open>
  Claim C6, as the code has it. Every accepted \<^verbatim>\<open>startStream\<close> and every publish signal
  writes \<^verbatim>\<open>start_time\<close> (the database's \<^verbatim>\<open>NOW()\<close>); every \<^verbatim>\<open>stopStream\<close> and every
  unpublish signal writes \<^verbatim>\<open>end_time\<close> (the database's \<^verbatim>\<open>NOW()\<close>) and \<^verbatim>\<open>duration\<close>, which
  is the whole seconds, rounded down, from the row's \<^verbatim>\<open>start_time\<close> to the server's
  \<^verbatim>\<open>Date.now()\<close>, or 0 when \<^verbatim>\<open>start_time\<close> is null. So a lifecycle of one accepted
  \<^verbatim>\<open>startStream\<close> directly followed by one \<^verbatim>\<open>stopStream\<close> ends with the \<^verbatim>\<open>start_time\<close> of
  the start, the \<^verbatim>\<open>end_time\<close> of the stop and the seconds between the start's \<^verbatim>\<open>NOW()\<close>
  and the stop's \<^verbatim>\<open>Date.now()\<close> as \<^verbatim>\<open>duration\<close>.
\<close>

theorem timing_columns_written:
  assumes "getStream sid s = Some r"
  shows "(status r \<noteq> ''live'' \<longrightarrow>
            map_option start_time (getStream sid (snd (startStream e sid s))) =
              Some (Some (db_now e))) \<and>
         (select_by_ingest_key k s = Some r \<longrightarrow>
            map_option start_time (getStream sid (snd (publish e k s))) =
              Some (Some (db_now e))) \<and>
         getStream sid (snd (stopStream e sid s)) =
           Some (r\<lparr>status := ''ended'', end_time := Some (db_now e),
                   duration := Some (case start_time r of
                                       Some t \<Rightarrow> (date_now e - t) div 1000 | None \<Rightarrow> 0),
                   updated_at := db_now e\<rparr>) \<and>
         (select_by_ingest_key k s = Some r \<longrightarrow>
            getStream sid (snd (unpublish e k s)) =
              Some (r\<lparr>status := ''ended'', end_time := Some (db_now e),
                      duration := Some (case start_time r of
                                          Some t \<Rightarrow> (date_now e - t) div 1000 | None \<Rightarrow> 0),
                      updated_at := db_now e\<rparr>)) \<and>
         (status r \<noteq> ''live'' \<longrightarrow>
            map_option (\<lambda>z. (start_time z, end_time z, duration z))
              (getStream sid (snd (stopStream e2 sid (snd (startStream e sid s))))) =
              Some (Some (db_now e), Some (db_now e2), Some ((date_now e2 - db_now e) div 1000)))"
proof -
  have a: "map_option start_time (getStream sid (snd (startStream e sid s))) = Some (Some (db_now e))"
    if "status r \<noteq> ''live''"
    using startStream_start_time[OF assms that, of e] by auto
  have b: "map_option start_time (getStream sid (snd (publish e k s))) = Some (Some (db_now e))"
    if "select_by_ingest_key k s = Some r"
    by (simp add: publish_row[OF that assms])
  have c: "getStream sid (snd (stopStream e sid s)) =
           Some (r\<lparr>status := ''ended'', end_time := Some (db_now e),
                   duration := Some (case start_time r of
                                       Some t \<Rightarrow> (date_now e - t) div 1000 | None \<Rightarrow> 0),
                   updated_at := db_now e\<rparr>)"
    by (simp add: stopStream_row[OF assms] calc_duration_def)
  have d: "getStream sid (snd (unpublish e k s)) =
              Some (r\<lparr>status := ''ended'', end_time := Some (db_now e),
                      duration := Some (case start_time r of
                                          Some t \<Rightarrow> (date_now e - t) div 1000 | None \<Rightarrow> 0),
                      updated_at := db_now e\<rparr>)"
    if "select_by_ingest_key k s = Some r"
    by (simp add: unpublish_row[OF that assms] calc_duration_def)
  have f: "map_option (\<lambda>z. (start_time z, end_time z, duration z))
              (getStream sid (snd (stopStream e2 sid (snd (startStream e sid s))))) =
              Some (Some (db_now e), Some (db_now e2), Some ((date_now e2 - db_now e) div 1000))"
    if nl: "status r \<noteq> ''live''"
  proof -
    obtain r1 where r1: "getStream sid (snd (startStream e sid s)) = Some r1"
        "start_time r1 = Some (db_now e)"
      using startStream_start_time[OF assms nl, of e] by blast
    show ?thesis by (simp add: stopStream_row[OF r1(1)] calc_duration_def r1(2))
  qed
  from a b c d f show ?thesis by blast
qed

text \<open>The theorem at the created stream \<open>s1\<close>, started at 1000 and stopped at 5000.\<close>

theorem timing_columns_witness:
  "getStream ''s1'' st_created = Some row_created \<and> status row_created \<noteq> ''live'' \<and>
   select_by_ingest_key ''k1'' st_created = Some row_created \<and>
   map_option start_time (getStream ''s1''
      (snd (startStream (env0\<lparr>db_now := 1000\<rparr>) ''s1'' st_created))) = Some (Some 1000) \<and>
   map_option start_time (getStream ''s1''
      (snd (publish (env0\<lparr>db_now := 1000\<rparr>) ''k1'' st_created))) = Some (Some 1000) \<and>
   map_option duration (getStream ''s1''
      (snd (stopStream (env0\<lparr>db_now := 1000\<rparr>) ''s1'' st_created))) = Some (Some 0) \<and>
   map_option duration (getStream ''s1''
      (snd (unpublish (env0\<lparr>db_now := 1000\<rparr>) ''k1'' st_created))) = Some (Some 0) \<and>
   map_option (\<lambda>z. (start_time z, end_time z, duration z))
     (getStream ''s1'' (snd (stopStream env0 ''s1''
        (snd (startStream (env0\<lparr>db_now := 1000\<rparr>) ''s1'' st_created))))) =
     Some (Some 1000, Some 5000, Some 4)"
proof -
  have h1: "getStream ''s1'' st_created = Some row_created"
    by (simp add: getStream_def st_created_def st_empty_def row_created_def)
  have h2: "status row_created \<noteq> ''live''" by (simp add: row_created_def)
  have h3: "select_by_ingest_key ''k1'' st_created = Some row_created"
    by (simp add: select_by_ingest_key_def st_created_def st_empty_def row_created_def)
  have h4: "start_time row_created = None" by (simp add: row_created_def)
  have n: "db_now env0 = 5000" "date_now env0 = 5000" by (simp_all add: env0_def)
  show ?thesis
    using timing_columns_written[OF h1, of "env0\<lparr>db_now := 1000\<rparr>" "''k1''" env0] h1 h2 h3 h4 n
    by simp
qed

text \<open>Against the claim as the specification words it: the stream \<open>s1\<close> is started by
  the control API at 1000, its publisher connects at 2000, disconnects at 9000, and the
  control API stops it at 12000. \<^verbatim>\<open>start_time\<close> is written at 1000 and again at 2000;
  \<^verbatim>\<open>end_time\<close> and \<^verbatim>\<open>duration\<close> are written at 9000 and again at 12000.\<close>

theorem timing_columns_counterexample:
  "map_option start_time (getStream ''s1''
     (run [(env0\<lparr>db_now := 1000\<rparr>, Start ''s1'')] st_created)) = Some (Some 1000) \<and>
   map_option start_time (getStream ''s1''
     (run [(env0\<lparr>db_now := 1000\<rparr>, Start ''s1''),
           (env0\<lparr>db_now := 2000\<rparr>, IngestBegun ''k1'')] st_created)) = Some (Some 2000) \<and>
   map_option (\<lambda>z. (end_time z, duration z)) (getStream ''s1''
     (run [(env0\<lparr>db_now := 1000\<rparr>, Start ''s1''),
           (env0\<lparr>db_now := 2000\<rparr>, IngestBegun ''k1''),
           (env0\<lparr>db_now := 9000, date_now := 9000\<rparr>, IngestEnded ''k1'')] st_created))
     = Some (Some 9000, Some 7) \<and>
   map_option (\<lambda>z. (end_time z, duration z)) (getStream ''s1''
     (run [(env0\<lparr>db_now := 1000\<rparr>, Start ''s1''),
           (env0\<lparr>db_now := 2000\<rparr>, IngestBegun ''k1''),
           (env0\<lparr>db_now := 9000, date_now := 9000\<rparr>, IngestEnded ''k1''),
           (env0\<lparr>db_now := 12000, date_now := 12000\<rparr>, Stop ''s1'')] st_created))
     = Some (Some 12000, Some 10)"
  by (simp add: ex_defs op_defs)


section \<open>A start whose resources fail\<close>

lemma Map_get_Map_set: "Map_get (Map_set k v m) k = Some v"
  by (induction m) (auto simp: Map_get_def)

lemma Map_get_Map_set_other: "x \<noteq> k \<Longrightarrow> Map_get (Map_set k v m) x = Map_get m x"
  by (induction m) (auto simp: Map_get_def)

lemma status_of_started:
  assumes "getStream sid s = Some r" and "status r \<noteq> ''live''"
  shows "status_of sid (snd (startStream e sid s)) = Some ''live''"
  using assms by (simp add: status_of_startStream) (simp add: status_of_def)

text \<open>
  Claim C4, as the code has it. \<^verbatim>\<open>startStream\<close> writes \<^verbatim>\<open>live\<close> and \<^verbatim>\<open>start_time\<close> to the
  row before it calls \<^verbatim>\<open>startRecording\<close>, and nothing takes the write back. If the
  directory is missing and \<^verbatim>\<open>mkdirSync\<close> throws, \<^verbatim>\<open>startStream\<close> ends with that exception
  in a state that differs from the one before in exactly this write: the row says
  \<^verbatim>\<open>live\<close>, and there is no process, no handle, no path and no event. If the directory
  can be had, a process is spawned, and when it then reports an error its handler
  removes the handle while the row still says \<^verbatim>\<open>live\<close>.
\<close>

theorem failed_start_leaves_live:
  assumes "getStream sid s = Some r" and "status r \<noteq> ''live''"
  shows "(\<not> existsSync (hlsDir_of e sid) s \<and> mkdir_fails e (hlsDir_of e sid) \<longrightarrow>
            startStream e sid s =
              (Inl (FsError ''mkdir'' (hlsDir_of e sid)),
               s\<lparr>streams := map (\<lambda>z. if stream_id z = sid
                                      then z\<lparr>status := ''live'', start_time := Some (db_now e),
                                             updated_at := db_now e\<rparr>
                                      else z) (streams s)\<rparr>) \<and>
            getStream sid (snd (startStream e sid s)) =
              Some (r\<lparr>status := ''live'', start_time := Some (db_now e), updated_at := db_now e\<rparr>)) \<and>
         (existsSync (hlsDir_of e sid) s \<or> \<not> mkdir_fails e (hlsDir_of e sid) \<longrightarrow>
            length (spawned (snd (startStream e sid s))) = Suc (length (spawned s)) \<and>
            Map_get (recordingProcesses (snd (startStream e sid s))) sid = Some (length (spawned s)) \<and>
            Map_get (recordingProcesses (ffmpeg_on_error sid (snd (startStream e sid s)))) sid = None \<and>
            status_of sid (ffmpeg_on_error sid (snd (startStream e sid s))) = Some ''live'') \<and>
         status_of sid (snd (startStream e sid s)) = Some ''live''"
proof -
  have id: "stream_id r = sid" by (rule getStream_id[OF assms(1)])
  have a: "startStream e sid s =
              (Inl (FsError ''mkdir'' (hlsDir_of e sid)),
               s\<lparr>streams := map (\<lambda>z. if stream_id z = sid
                                      then z\<lparr>status := ''live'', start_time := Some (db_now e),
                                             updated_at := db_now e\<rparr>
                                      else z) (streams s)\<rparr>) \<and>
            getStream sid (snd (startStream e sid s)) =
              Some (r\<lparr>status := ''live'', start_time := Some (db_now e), updated_at := db_now e\<rparr>)"
    if f: "\<not> existsSync (hlsDir_of e sid) s \<and> mkdir_fails e (hlsDir_of e sid)"
  proof -
    have st: "startStream e sid s =
         (Inl (FsError ''mkdir'' (hlsDir_of e sid)),
          update_streams e sid (\<lambda>r. r\<lparr>status := ''live'', start_time := Some (db_now e)\<rparr>) s)"
      using f by (intro startStream_fails_row[OF assms]) simp_all
    show ?thesis using assms(1) id
      by (simp add: st getStream_update_streams) (simp add: update_streams_def)
  qed
  have b: "length (spawned (snd (startStream e sid s))) = Suc (length (spawned s)) \<and>
            Map_get (recordingProcesses (snd (startStream e sid s))) sid = Some (length (spawned s)) \<and>
            Map_get (recordingProcesses (ffmpeg_on_error sid (snd (startStream e sid s)))) sid = None \<and>
            status_of sid (ffmpeg_on_error sid (snd (startStream e sid s))) = Some ''live''"
    if ok: "existsSync (hlsDir_of e sid) s \<or> \<not> mkdir_fails e (hlsDir_of e sid)"
  proof -
    note R = startStream_ok_row[OF assms ok]
    have "status_of sid (ffmpeg_on_error sid (snd (startStream e sid s))) =
          status_of sid (snd (startStream e sid s))"
      by (simp add: ffmpeg_on_error_def status_of_def)
    then show ?thesis
      by (simp add: R(2) R(3) Map_get_Map_set ffmpeg_on_error_def Map_get_Map_delete
            status_of_started[OF assms])
  qed
  from a b status_of_started[OF assms, of e] show ?thesis by blast
qed

text \<open>The theorem at the created stream \<open>s1\<close>, once with a \<^verbatim>\<open>mkdirSync\<close> that throws and
  once with one that does not.\<close>

theorem failed_start_witness:
  "getStream ''s1'' st_created = Some row_created \<and> status row_created \<noteq> ''live'' \<and>
   \<not> existsSync ''storage/hls/s1'' st_created \<and>
   startStream (env0\<lparr>mkdir_fails := \<lambda>p. True\<rparr>) ''s1'' st_created =
     (Inl (FsError ''mkdir'' ''storage/hls/s1''),
      st_created\<lparr>streams := [row_created\<lparr>status := ''live'', start_time := Some 5000,
                                          updated_at := 5000\<rparr>]\<rparr>) \<and>
   length (spawned (snd (startStream env0 ''s1'' st_created))) = 1 \<and>
   Map_get (recordingProcesses (snd (startStream env0 ''s1'' st_created))) ''s1'' = Some 0 \<and>
   Map_get (recordingProcesses (ffmpeg_on_error ''s1'' (snd (startStream env0 ''s1'' st_created))))
     ''s1'' = None \<and>
   status_of ''s1'' (ffmpeg_on_error ''s1'' (snd (startStream env0 ''s1'' st_created))) = Some ''live''"
proof -
  have h1: "getStream ''s1'' st_created = Some row_created"
    by (simp add: getStream_def st_created_def st_empty_def row_created_def)
  have h2: "status row_created \<noteq> ''live''" by (simp add: row_created_def)
  have d1: "hlsDir_of (env0\<lparr>mkdir_fails := \<lambda>p. True\<rparr>) ''s1'' = ''storage/hls/s1''"
    and d2: "hlsDir_of env0 ''s1'' = ''storage/hls/s1''"
    by (simp_all add: hlsDir_of_def env0_def or_default_def)
  have h3: "\<not> existsSync ''storage/hls/s1'' st_created"
    by (simp add: existsSync_def st_created_def st_empty_def)
  have h4: "mkdir_fails (env0\<lparr>mkdir_fails := \<lambda>p. True\<rparr>) ''storage/hls/s1''" by simp
  have h5: "\<not> mkdir_fails env0 ''storage/hls/s1''" by (simp add: env0_def)
  have n: "db_now (env0\<lparr>mkdir_fails := \<lambda>p. True\<rparr>) = 5000" by (simp add: env0_def)
  have s: "spawned st_created = []" "streams st_created = [row_created]"
    "stream_id row_created = ''s1''"
    by (simp_all add: st_created_def st_empty_def row_created_def)
  show ?thesis
    using failed_start_leaves_live[OF h1 h2, of "env0\<lparr>mkdir_fails := \<lambda>p. True\<rparr>"]
          failed_start_leaves_live[OF h1 h2, of env0]
          h1 h2 h3 h4 h5
    by (simp add: d1 d2 n s)
qed

text \<open>Against the claim as the specification words it: the stream \<open>s1\<close> is
  \<^verbatim>\<open>created\<close>, its directory is missing and \<^verbatim>\<open>mkdirSync\<close> throws; \<^verbatim>\<open>startStream\<close> fails,
  and the row says \<^verbatim>\<open>live\<close> with a \<^verbatim>\<open>start_time\<close>, though nothing records.\<close>

theorem failed_start_counterexample:
  "status_of ''s1'' st_created = Some ''created'' \<and>
   fst (startStream (env0\<lparr>mkdir_fails := \<lambda>p. True\<rparr>) ''s1'' st_created) =
     Inl (FsError ''mkdir'' ''storage/hls/s1'') \<and>
   status_of ''s1'' (snd (startStream (env0\<lparr>mkdir_fails := \<lambda>p. True\<rparr>) ''s1'' st_created)) =
     Some ''live'' \<and>
   map_option start_time
     (getStream ''s1'' (snd (startStream (env0\<lparr>mkdir_fails := \<lambda>p. True\<rparr>) ''s1'' st_created))) =
     Some (Some 5000) \<and>
   recordingProcesses (snd (startStream (env0\<lparr>mkdir_fails := \<lambda>p. True\<rparr>) ''s1'' st_created)) = [] \<and>
   spawned (snd (startStream (env0\<lparr>mkdir_fails := \<lambda>p. True\<rparr>) ''s1'' st_created)) = []"
  by (simp add: ex_defs op_defs)


section \<open>Deleting a stream\<close>


lemma getStream_fs [simp]:
  "getStream x (unlinkSync p s) = getStream x s"
  "getStream x (rmSync d s) = getStream x s"
  by (simp_all add: unlinkSync_def rmSync_def)

lemma handles_fs [simp]:
  "recordingProcesses (unlinkSync p s) = recordingProcesses s"
  "recordingProcesses (rmSync d s) = recordingProcesses s"
  "recordingProcesses (delete_streams sid s) = recordingProcesses s"
  by (simp_all add: unlinkSync_def rmSync_def delete_streams_def)












section \<open>One handle for a stream\<close>






















text \<open>The map holds one handle for a stream, but more than one of the stream's processes
  can be running: the unpublish signal ends the stream \<open>s1\<close> without stopping its
  recording, and the start after it spawns a second process, whose handle takes the place
  of the first in the map; the first process has been sent no signal.\<close>

lemma restart_after_unpublish_leaves_first_process:
  "map closure_streamId
     (spawned (run [(env0, Start ''s1''), (env0, IngestEnded ''k1''), (env0, Start ''s1'')]
        st_created)) = [''s1'', ''s1''] \<and>
   recordingProcesses (run [(env0, Start ''s1''), (env0, IngestEnded ''k1''), (env0, Start ''s1'')]
        st_created) = [(''s1'', 1)] \<and>
   signals (run [(env0, Start ''s1''), (env0, IngestEnded ''k1''), (env0, Start ''s1'')]
        st_created) = []"
  by (simp add: ex_defs op_defs)

end
